theory Spec2Isabelle
  imports Main
begin

section \<open>Login and logout actions of the wallet (app/actions/authActions.js)\<close>

text \<open>
  The module builds the account session of the wallet from one of four credentials and
  clears it on logout. Everything it does goes through collaborators imported from other
  modules (the key library \<open>wallet\<close>, the passphrase policy, the address-book upgrade,
  the hardware bridge, the DNS resolver, the balance reset). The collaborators are taken
  as parameters (record \<open>collaborators\<close>); every call to one of them is written to a log,
  in the order in which the code makes the calls, so that "is never invoked", "exactly
  once" and "before" are statements about that log.
\<close>

subsection \<open>Data\<close>

text \<open>A thrown JavaScript \<open>Error\<close> with its message; a rejected promise carries one too.\<close>

datatype error = Error string

text \<open>
  An object of the library class \<open>wallet.Account\<close>. The code reads two properties of it,
  \<open>WIF\<close> and \<open>address\<close>; both are getters of the library and a getter may throw.
\<close>

record Account =
  WIF :: "error + string"
  address :: "error + string"

text \<open>
  The flow type \<open>AccountType\<close> (the session). Fields marked \<open>?\<close> in the source are
  optional: \<open>None\<close> is a field that the object literal does not have.
\<close>

record 'fn AccountType =
  address :: string
  wif :: "string option"
  publicKey :: "string option"
  signingFunction :: "'fn option"
  isHardwareLogin :: bool
  isWatchOnly :: "bool option"
  hasInternetConnectivity :: bool

text \<open>
  The imported functions. \<open>'fn\<close> is the flow type \<open>Function\<close>. \<open>new_Account\<close> is the
  constructor \<open>new wallet.Account(_)\<close>; \<open>dns_resolve\<close> gives the \<open>err\<close> argument that
  \<open>dns.resolve\<close> passes to its callback (\<open>None\<close> is a null \<open>err\<close>); \<open>resetBalanceState\<close>
  takes no argument, and the code drops what it returns.
\<close>

record 'fn collaborators =
  isWIF :: "string \<Rightarrow> bool"
  isPrivateKey :: "string \<Rightarrow> bool"
  isAddress :: "string \<Rightarrow> bool"
  isNEP2 :: "string \<Rightarrow> bool"
  decryptAsync :: "string \<Rightarrow> string \<Rightarrow> error + string"
  new_Account :: "string \<Rightarrow> error + Account"
  getPublicKeyEncoded :: "string \<Rightarrow> error + string"
  validatePassphraseLength :: "string \<Rightarrow> bool"
  upgradeNEP6AddAddresses :: "string \<Rightarrow> string \<Rightarrow> error + unit"
  ledgerNanoSCreateSignatureAsync :: "'fn"
  bindArgsFromN :: "'fn \<Rightarrow> int \<Rightarrow> int \<Rightarrow> 'fn"
  dns_resolve :: "string \<Rightarrow> string \<Rightarrow> error option"
  resetBalanceState :: "error + unit"

text \<open>One entry of the call log: the function called and its arguments.\<close>

datatype call =
    Call_isWIF string
  | Call_isPrivateKey string
  | Call_isAddress string
  | Call_isNEP2 string
  | Call_validatePassphraseLength string
  | Call_decryptAsync string string
  | Call_new_Account string
  | Call_getPublicKeyEncoded string
  | Call_upgradeNEP6AddAddresses string string
  | Call_dns_resolve string string
  | Call_resetBalanceState

subsection \<open>Sequencing\<close>

text \<open>
  A run of an action: what it returns or throws, and the calls it made, oldest first.
  An \<open>await\<close> of a rejected promise throws, as a failing synchronous call does, and
  whatever is thrown ends the run: \<open>bind\<close> is the semicolon of the source.
\<close>

type_synonym 'a run = "(error + 'a) \<times> call list"

definition return :: "'a \<Rightarrow> 'a run" where
  "return x = (Inr x, [])"

definition throw :: "error \<Rightarrow> 'a run" where
  "throw e = (Inl e, [])"

definition invoke :: "call \<Rightarrow> error + 'a \<Rightarrow> 'a run" where
  "invoke c r = (r, [c])"

definition read :: "error + 'a \<Rightarrow> 'a run" where
  "read r = (r, [])"

definition bind :: "'a run \<Rightarrow> ('a \<Rightarrow> 'b run) \<Rightarrow> 'b run" where
  "bind m f =
     (case m of
        (Inl e, cs) \<Rightarrow> (Inl e, cs)
      | (Inr x, cs) \<Rightarrow> (case f x of (r, cs') \<Rightarrow> (r, cs @ cs')))"

subsection \<open>The actions\<close>

text \<open>
  \<open>checkForInternetConnectivity\<close>: one \<open>dns.resolve('google.com', 'A', _)\<close>; the promise
  is resolved with \<open>false\<close> when the callback gets an \<open>err\<close> and with \<open>true\<close> otherwise.
\<close>

definition checkForInternetConnectivity :: "'fn collaborators \<Rightarrow> bool run" where
  "checkForInternetConnectivity env =
     bind (invoke (Call_dns_resolve ''google.com'' ''A'')
             (Inr (dns_resolve env ''google.com'' ''A'')))
       (\<lambda>err. case err of Some _ \<Rightarrow> return False | None \<Rightarrow> return True)"

text \<open>
  The guard \<open>!wallet.isWIF(wif) && !wallet.isPrivateKey(wif)\<close>: \<open>&&\<close> evaluates its
  right operand only when the left one is true.
\<close>

definition wif_rejected :: "'fn collaborators \<Rightarrow> string \<Rightarrow> bool run" where
  "wif_rejected env w =
     bind (invoke (Call_isWIF w) (Inr (isWIF env w)))
       (\<lambda>a. if \<not> a
            then bind (invoke (Call_isPrivateKey w) (Inr (isPrivateKey env w)))
                   (\<lambda>b. return (\<not> b))
            else return False)"

definition wifLoginActions :: "'fn collaborators \<Rightarrow> string \<Rightarrow> 'fn AccountType option run" where
  "wifLoginActions env w =
     bind (wif_rejected env w) (\<lambda>bad.
       if bad then throw (Error ''Invalid private key entered'')
       else
         bind (invoke (Call_new_Account w) (new_Account env w)) (\<lambda>account.
         bind (checkForInternetConnectivity env) (\<lambda>h.
         bind (read (WIF account)) (\<lambda>account_WIF.
         bind (read (Account.address account)) (\<lambda>account_address.
           return (Some \<lparr>address = account_address,
                         wif = Some account_WIF,
                         publicKey = None,
                         signingFunction = None,
                         isHardwareLogin = False,
                         isWatchOnly = None,
                         hasInternetConnectivity = h\<rparr>))))))"

definition watchOnlyLoginActions ::
  "'fn collaborators \<Rightarrow> string \<Rightarrow> 'fn AccountType option run" where
  "watchOnlyLoginActions env a =
     bind (invoke (Call_isAddress a) (Inr (isAddress env a))) (\<lambda>ok.
       if \<not> ok then throw (Error ''Invalid public key entered'')
       else
         bind (checkForInternetConnectivity env) (\<lambda>h.
           return (Some \<lparr>address = a,
                         wif = None,
                         publicKey = None,
                         signingFunction = None,
                         isHardwareLogin = False,
                         isWatchOnly = Some True,
                         hasInternetConnectivity = h\<rparr>)))"

definition nep2LoginActions ::
  "'fn collaborators \<Rightarrow> string \<Rightarrow> string \<Rightarrow> 'fn AccountType option run" where
  "nep2LoginActions env passphrase encryptedWIF =
     bind (invoke (Call_validatePassphraseLength passphrase)
             (Inr (validatePassphraseLength env passphrase))) (\<lambda>long_enough.
       if \<not> long_enough then throw (Error ''Passphrase too short'')
       else
         bind (invoke (Call_isNEP2 encryptedWIF) (Inr (isNEP2 env encryptedWIF))) (\<lambda>nep2.
           if \<not> nep2 then throw (Error ''Invalid encrypted key entered'')
           else
             bind (invoke (Call_decryptAsync encryptedWIF passphrase)
                     (decryptAsync env encryptedWIF passphrase)) (\<lambda>w.
             bind (invoke (Call_new_Account w) (new_Account env w)) (\<lambda>account.
             bind (invoke (Call_upgradeNEP6AddAddresses encryptedWIF w)
                     (upgradeNEP6AddAddresses env encryptedWIF w)) (\<lambda>_.
             bind (checkForInternetConnectivity env) (\<lambda>h.
             bind (read (WIF account)) (\<lambda>account_WIF.
             bind (read (Account.address account)) (\<lambda>account_address.
               return (Some \<lparr>address = account_address,
                             wif = Some account_WIF,
                             publicKey = None,
                             signingFunction = None,
                             isHardwareLogin = False,
                             isWatchOnly = None,
                             hasInternetConnectivity = h\<rparr>)))))))))"

definition ledgerLoginActions ::
  "'fn collaborators \<Rightarrow> string \<Rightarrow> int \<Rightarrow> 'fn AccountType option run" where
  "ledgerLoginActions env pk account =
     bind (invoke (Call_getPublicKeyEncoded pk) (getPublicKeyEncoded env pk))
       (\<lambda>publicKeyEncoded.
     bind (invoke (Call_new_Account publicKeyEncoded) (new_Account env publicKeyEncoded))
       (\<lambda>walletAccount.
     bind (checkForInternetConnectivity env) (\<lambda>h.
     bind (read (Account.address walletAccount)) (\<lambda>walletAccount_address.
       return (Some \<lparr>address = walletAccount_address,
                     wif = None,
                     publicKey = Some pk,
                     signingFunction =
                       Some (bindArgsFromN env (ledgerNanoSCreateSignatureAsync env) 3 account),
                     isHardwareLogin = True,
                     isWatchOnly = None,
                     hasInternetConnectivity = h\<rparr>)))))"

text \<open>\<open>logoutActions\<close>: calls \<open>resetBalanceState()\<close>, drops what it returns, returns null.\<close>

definition logoutActions :: "'fn collaborators \<Rightarrow> 'fn AccountType option run" where
  "logoutActions env =
     bind (invoke Call_resetBalanceState (resetBalanceState env)) (\<lambda>_. return None)"

subsection \<open>The session store\<close>

text \<open>
  The session that the view layer sees, and the log of all calls made so far.
\<close>

record 'fn store =
  auth :: "'fn AccountType option"
  calls :: "call list"

text \<open>
  Modelled from the spec: the store update behind \<open>createActions(ID, ...)\<close> of the
  library \<open>spunky\<close>, which is not under src/. The spec (sections 3, 4.2 and 7) says:
  a successful login replaces any prior session as one atomic value, logout sets the
  session to absent, and on failure no session replaces the previous one, which is left
  untouched.
\<close>

definition dispatch ::
  "'fn AccountType option run \<Rightarrow> 'fn store \<Rightarrow> (error + 'fn AccountType option) \<times> 'fn store" where
  "dispatch act st =
     (case act of
        (Inr s, cs) \<Rightarrow> (Inr s, st\<lparr>auth := s, calls := calls st @ cs\<rparr>)
      | (Inl e, cs) \<Rightarrow> (Inl e, st\<lparr>calls := calls st @ cs\<rparr>))"

subsection \<open>Reading the call log\<close>

fun is_decryptAsync :: "call \<Rightarrow> bool" where
  "is_decryptAsync (Call_decryptAsync _ _) = True"
| "is_decryptAsync _ = False"

fun is_new_Account :: "call \<Rightarrow> bool" where
  "is_new_Account (Call_new_Account _) = True"
| "is_new_Account _ = False"

fun is_upgradeNEP6AddAddresses :: "call \<Rightarrow> bool" where
  "is_upgradeNEP6AddAddresses (Call_upgradeNEP6AddAddresses _ _) = True"
| "is_upgradeNEP6AddAddresses _ = False"

fun is_dns_resolve :: "call \<Rightarrow> bool" where
  "is_dns_resolve (Call_dns_resolve _ _) = True"
| "is_dns_resolve _ = False"

fun is_resetBalanceState :: "call \<Rightarrow> bool" where
  "is_resetBalanceState Call_resetBalanceState = True"
| "is_resetBalanceState _ = False"

text \<open>How many of the calls of a log are of one kind.\<close>

definition invocations :: "(call \<Rightarrow> bool) \<Rightarrow> call list \<Rightarrow> nat" where
  "invocations P cs = length (filter P cs)"

text \<open>
  A run with \<open>hasInternetConnectivity\<close> of its session, if it returns one, set to false:
  same outcome otherwise, same calls.
\<close>

definition no_connectivity :: "'fn AccountType option run \<Rightarrow> 'fn AccountType option run" where
  "no_connectivity r =
     (map_sum id (map_option (\<lambda>s. s\<lparr>hasInternetConnectivity := False\<rparr>)) (fst r), snd r)"

subsection \<open>A concrete set of collaborators\<close>

text \<open>
  A small stand-in for the libraries, in the way a unit test stubs them: one key, known
  in its two forms, its address, its encrypted form under the passphrase \<open>secret\<close>, and
  one hardware public key. A \<open>Function\<close> is the list of the arguments bound to it.
\<close>

definition key_account :: Account where
  "key_account = \<lparr>WIF = Inr ''wif-A'', address = Inr ''addr-A''\<rparr>"

definition pub_account :: Account where
  "pub_account = \<lparr>WIF = Inl (Error ''No Private Key provided''), address = Inr ''addr-B''\<rparr>"

definition stub :: "int list collaborators" where
  "stub = \<lparr>
     isWIF = (\<lambda>s. s = ''wif-A''),
     isPrivateKey = (\<lambda>s. s = ''key-A''),
     isAddress = (\<lambda>s. s = ''addr-A'' \<or> s = ''addr-B''),
     isNEP2 = (\<lambda>s. s = ''nep2-A''),
     decryptAsync = (\<lambda>k p. if k = ''nep2-A'' \<and> p = ''secret'' then Inr ''wif-A''
                             else Inl (Error ''Wrong password'')),
     new_Account = (\<lambda>s. if s = ''wif-A'' \<or> s = ''key-A'' then Inr key_account
                         else if s = ''pub-B-encoded'' then Inr pub_account
                         else Inl (Error ''Invalid input'')),
     getPublicKeyEncoded = (\<lambda>s. if s = ''pub-B'' then Inr ''pub-B-encoded''
                                 else Inl (Error ''Invalid public key'')),
     validatePassphraseLength = (\<lambda>p. 4 \<le> length p),
     upgradeNEP6AddAddresses = (\<lambda>k w. Inr ()),
     ledgerNanoSCreateSignatureAsync = [],
     bindArgsFromN = (\<lambda>f n a. f @ [n, a]),
     dns_resolve = (\<lambda>h t. None),
     resetBalanceState = Inr ()\<rparr>"

section \<open>Properties\<close>

subsection \<open>Unfolding a run\<close>

lemma bind_return: "bind (return x) f = f x"
  by (simp add: bind_def return_def split: prod.splits)

lemma bind_throw: "bind (throw e) f = (Inl e, [])"
  by (simp add: bind_def throw_def)

lemma bind_Inl: "bind (Inl e, cs) f = (Inl e, cs)"
  by (simp add: bind_def)

lemma bind_Inr: "bind (Inr x, cs) f = (fst (f x), cs @ snd (f x))"
  by (simp add: bind_def split: prod.splits)

lemma bind_invoke:
  "bind (invoke c r) f =
     (case r of Inl e \<Rightarrow> (Inl e, [c]) | Inr x \<Rightarrow> (fst (f x), c # snd (f x)))"
  by (simp add: bind_def invoke_def split: sum.splits prod.splits)

lemma bind_read:
  "bind (read r) f = (case r of Inl e \<Rightarrow> (Inl e, []) | Inr x \<Rightarrow> f x)"
  by (simp add: bind_def read_def split: sum.splits prod.splits)

lemma checkForInternetConnectivity_eq:
  "checkForInternetConnectivity env =
     (Inr (dns_resolve env ''google.com'' ''A'' = None), [Call_dns_resolve ''google.com'' ''A''])"
  by (simp add: checkForInternetConnectivity_def bind_invoke return_def split: option.splits)

lemma bind_checkForInternetConnectivity:
  "bind (checkForInternetConnectivity env) f =
     (fst (f (dns_resolve env ''google.com'' ''A'' = None)),
      Call_dns_resolve ''google.com'' ''A'' # snd (f (dns_resolve env ''google.com'' ''A'' = None)))"
  by (simp add: checkForInternetConnectivity_eq bind_def split: prod.splits)

lemmas run_simps =
  bind_return bind_throw bind_invoke bind_read bind_checkForInternetConnectivity

lemma wif_rejected_eq:
  "wif_rejected env w =
     (if isWIF env w then (Inr False, [Call_isWIF w])
      else (Inr (\<not> isPrivateKey env w), [Call_isWIF w, Call_isPrivateKey w]))"
  by (simp add: wif_rejected_def run_simps return_def)

text \<open>Each action as one case distinction over what its collaborators answer.\<close>

lemma wifLoginActions_eq:
  "wifLoginActions env w =
     (if \<not> isWIF env w \<and> \<not> isPrivateKey env w
      then (Inl (Error ''Invalid private key entered''), [Call_isWIF w, Call_isPrivateKey w])
      else
        (case new_Account env w of
           Inl e \<Rightarrow> (Inl e, snd (wif_rejected env w) @ [Call_new_Account w])
         | Inr a \<Rightarrow>
             (case WIF a of
                Inl e \<Rightarrow> Inl e
              | Inr x \<Rightarrow>
                  (case Account.address a of
                     Inl e \<Rightarrow> Inl e
                   | Inr y \<Rightarrow>
                       Inr (Some \<lparr>address = y, wif = Some x, publicKey = None,
                                  signingFunction = None, isHardwareLogin = False,
                                  isWatchOnly = None,
                                  hasInternetConnectivity =
                                    (dns_resolve env ''google.com'' ''A'' = None)\<rparr>)),
              snd (wif_rejected env w)
                @ [Call_new_Account w, Call_dns_resolve ''google.com'' ''A''])))"
  by (simp add: wifLoginActions_def wif_rejected_eq bind_Inr run_simps throw_def return_def
           split: sum.splits)

lemma watchOnlyLoginActions_eq:
  "watchOnlyLoginActions env a =
     (if isAddress env a
      then (Inr (Some \<lparr>address = a, wif = None, publicKey = None, signingFunction = None,
                       isHardwareLogin = False, isWatchOnly = Some True,
                       hasInternetConnectivity =
                         (dns_resolve env ''google.com'' ''A'' = None)\<rparr>),
            [Call_isAddress a, Call_dns_resolve ''google.com'' ''A''])
      else (Inl (Error ''Invalid public key entered''), [Call_isAddress a]))"
  by (simp add: watchOnlyLoginActions_def run_simps throw_def return_def)

lemma nep2LoginActions_eq:
  "nep2LoginActions env p k =
     (if \<not> validatePassphraseLength env p
      then (Inl (Error ''Passphrase too short''), [Call_validatePassphraseLength p])
      else if \<not> isNEP2 env k
      then (Inl (Error ''Invalid encrypted key entered''),
            [Call_validatePassphraseLength p, Call_isNEP2 k])
      else
        (case decryptAsync env k p of
           Inl e \<Rightarrow> (Inl e, [Call_validatePassphraseLength p, Call_isNEP2 k,
                             Call_decryptAsync k p])
         | Inr w \<Rightarrow>
             (case new_Account env w of
                Inl e \<Rightarrow> (Inl e, [Call_validatePassphraseLength p, Call_isNEP2 k,
                                  Call_decryptAsync k p, Call_new_Account w])
              | Inr a \<Rightarrow>
                  (case upgradeNEP6AddAddresses env k w of
                     Inl e \<Rightarrow> (Inl e, [Call_validatePassphraseLength p, Call_isNEP2 k,
                                       Call_decryptAsync k p, Call_new_Account w,
                                       Call_upgradeNEP6AddAddresses k w])
                   | Inr _ \<Rightarrow>
                       (case WIF a of
                          Inl e \<Rightarrow> Inl e
                        | Inr x \<Rightarrow>
                            (case Account.address a of
                               Inl e \<Rightarrow> Inl e
                             | Inr y \<Rightarrow>
                                 Inr (Some \<lparr>address = y, wif = Some x, publicKey = None,
                                            signingFunction = None, isHardwareLogin = False,
                                            isWatchOnly = None,
                                            hasInternetConnectivity =
                                              (dns_resolve env ''google.com'' ''A'' = None)\<rparr>)),
                        [Call_validatePassphraseLength p, Call_isNEP2 k,
                         Call_decryptAsync k p, Call_new_Account w,
                         Call_upgradeNEP6AddAddresses k w,
                         Call_dns_resolve ''google.com'' ''A''])))))"
  by (simp add: nep2LoginActions_def run_simps throw_def return_def split: sum.splits)

lemma ledgerLoginActions_eq:
  "ledgerLoginActions env pk n =
     (case getPublicKeyEncoded env pk of
        Inl e \<Rightarrow> (Inl e, [Call_getPublicKeyEncoded pk])
      | Inr pe \<Rightarrow>
          (case new_Account env pe of
             Inl e \<Rightarrow> (Inl e, [Call_getPublicKeyEncoded pk, Call_new_Account pe])
           | Inr a \<Rightarrow>
               (case Account.address a of
                  Inl e \<Rightarrow> Inl e
                | Inr y \<Rightarrow>
                    Inr (Some \<lparr>address = y, wif = None, publicKey = Some pk,
                               signingFunction =
                                 Some (bindArgsFromN env
                                         (ledgerNanoSCreateSignatureAsync env) 3 n),
                               isHardwareLogin = True, isWatchOnly = None,
                               hasInternetConnectivity =
                                 (dns_resolve env ''google.com'' ''A'' = None)\<rparr>),
                [Call_getPublicKeyEncoded pk, Call_new_Account pe,
                 Call_dns_resolve ''google.com'' ''A''])))"
  by (simp add: ledgerLoginActions_def run_simps return_def split: sum.splits)

lemma logoutActions_eq:
  "logoutActions env =
     (case resetBalanceState env of
        Inl e \<Rightarrow> (Inl e, [Call_resetBalanceState])
      | Inr _ \<Rightarrow> (Inr None, [Call_resetBalanceState]))"
  by (simp add: logoutActions_def run_simps return_def split: sum.splits)

text \<open>What the stubbed collaborators answer.\<close>

lemma stub_simps:
  "isWIF stub s = (s = ''wif-A'')"
  "isPrivateKey stub s = (s = ''key-A'')"
  "isAddress stub s = (s = ''addr-A'' \<or> s = ''addr-B'')"
  "isNEP2 stub s = (s = ''nep2-A'')"
  "decryptAsync stub k p =
     (if k = ''nep2-A'' \<and> p = ''secret'' then Inr ''wif-A'' else Inl (Error ''Wrong password''))"
  "new_Account stub s =
     (if s = ''wif-A'' \<or> s = ''key-A'' then Inr key_account
      else if s = ''pub-B-encoded'' then Inr pub_account
      else Inl (Error ''Invalid input''))"
  "getPublicKeyEncoded stub s =
     (if s = ''pub-B'' then Inr ''pub-B-encoded'' else Inl (Error ''Invalid public key''))"
  "validatePassphraseLength stub p = (4 \<le> length p)"
  "upgradeNEP6AddAddresses stub k w = Inr ()"
  "ledgerNanoSCreateSignatureAsync stub = []"
  "bindArgsFromN stub f n a = f @ [n, a]"
  "dns_resolve stub h t = None"
  "resetBalanceState stub = Inr ()"
  by (simp_all add: stub_def)

text \<open>Successful runs with the stubbed collaborators, one for each login.\<close>

lemma wif_stub_run:
  "wifLoginActions stub ''key-A'' =
     (Inr (Some \<lparr>address = ''addr-A'', wif = Some ''wif-A'', publicKey = None,
                 signingFunction = None, isHardwareLogin = False, isWatchOnly = None,
                 hasInternetConnectivity = True\<rparr>),
      [Call_isWIF ''key-A'', Call_isPrivateKey ''key-A'', Call_new_Account ''key-A'',
       Call_dns_resolve ''google.com'' ''A''])"
  by (simp add: wifLoginActions_eq wif_rejected_eq stub_simps key_account_def)

lemma watch_stub_run:
  "watchOnlyLoginActions stub ''addr-A'' =
     (Inr (Some \<lparr>address = ''addr-A'', wif = None, publicKey = None,
                 signingFunction = None, isHardwareLogin = False, isWatchOnly = Some True,
                 hasInternetConnectivity = True\<rparr>),
      [Call_isAddress ''addr-A'', Call_dns_resolve ''google.com'' ''A''])"
  by (simp add: watchOnlyLoginActions_eq stub_simps)

lemma nep2_stub_run:
  "nep2LoginActions stub ''secret'' ''nep2-A'' =
     (Inr (Some \<lparr>address = ''addr-A'', wif = Some ''wif-A'', publicKey = None,
                 signingFunction = None, isHardwareLogin = False, isWatchOnly = None,
                 hasInternetConnectivity = True\<rparr>),
      [Call_validatePassphraseLength ''secret'', Call_isNEP2 ''nep2-A'',
       Call_decryptAsync ''nep2-A'' ''secret'', Call_new_Account ''wif-A'',
       Call_upgradeNEP6AddAddresses ''nep2-A'' ''wif-A'',
       Call_dns_resolve ''google.com'' ''A''])"
  by (simp add: nep2LoginActions_eq stub_simps key_account_def)

lemma ledger_stub_run:
  "ledgerLoginActions stub ''pub-B'' 2 =
     (Inr (Some \<lparr>address = ''addr-B'', wif = None, publicKey = Some ''pub-B'',
                 signingFunction = Some [3, 2], isHardwareLogin = True, isWatchOnly = None,
                 hasInternetConnectivity = True\<rparr>),
      [Call_getPublicKeyEncoded ''pub-B'', Call_new_Account ''pub-B-encoded'',
       Call_dns_resolve ''google.com'' ''A''])"
  by (simp add: ledgerLoginActions_eq stub_simps pub_account_def)

lemma nep2_raw_stub_run:
  "nep2LoginActions (stub\<lparr>decryptAsync := \<lambda>k p. Inr ''key-A''\<rparr>) ''secret'' ''nep2-A'' =
     (Inr (Some \<lparr>address = ''addr-A'', wif = Some ''wif-A'', publicKey = None,
                 signingFunction = None, isHardwareLogin = False, isWatchOnly = None,
                 hasInternetConnectivity = True\<rparr>),
      [Call_validatePassphraseLength ''secret'', Call_isNEP2 ''nep2-A'',
       Call_decryptAsync ''nep2-A'' ''secret'', Call_new_Account ''key-A'',
       Call_upgradeNEP6AddAddresses ''nep2-A'' ''key-A'',
       Call_dns_resolve ''google.com'' ''A''])"
  by (simp add: nep2LoginActions_eq stub_def key_account_def)

lemma stub_dns_restored:
  "stub\<lparr>dns_resolve := \<lambda>_ _. Some e, dns_resolve := \<lambda>_ _. None\<rparr> = stub"
  by (simp add: stub_def)

text \<open>
  The answer of the resolver reaches a login only through \<open>hasInternetConnectivity\<close>.
\<close>

lemma wif_no_connectivity:
  "dns_resolve env ''google.com'' ''A'' = Some err \<Longrightarrow>
   wifLoginActions env w = no_connectivity (wifLoginActions (env\<lparr>dns_resolve := \<lambda>_ _. None\<rparr>) w)"
  by (simp add: wifLoginActions_eq wif_rejected_eq no_connectivity_def split: sum.splits)

lemma watch_no_connectivity:
  "dns_resolve env ''google.com'' ''A'' = Some err \<Longrightarrow>
   watchOnlyLoginActions env a =
     no_connectivity (watchOnlyLoginActions (env\<lparr>dns_resolve := \<lambda>_ _. None\<rparr>) a)"
  by (simp add: watchOnlyLoginActions_eq no_connectivity_def)

lemma nep2_no_connectivity:
  "dns_resolve env ''google.com'' ''A'' = Some err \<Longrightarrow>
   nep2LoginActions env p k =
     no_connectivity (nep2LoginActions (env\<lparr>dns_resolve := \<lambda>_ _. None\<rparr>) p k)"
  by (simp add: nep2LoginActions_eq no_connectivity_def split: sum.splits)

lemma ledger_no_connectivity:
  "dns_resolve env ''google.com'' ''A'' = Some err \<Longrightarrow>
   ledgerLoginActions env pk n =
     no_connectivity (ledgerLoginActions (env\<lparr>dns_resolve := \<lambda>_ _. None\<rparr>) pk n)"
  by (simp add: ledgerLoginActions_eq no_connectivity_def split: sum.splits)

text \<open>Where the probe stands in the call log of each login.\<close>

lemma wif_probe:
  "((\<not> isWIF env w \<and> \<not> isPrivateKey env w) \<or> new_Account env w = Inl e \<longrightarrow>
      invocations is_dns_resolve (snd (wifLoginActions env w)) = 0)
   \<and> (fst (wifLoginActions env w) = Inr r \<longrightarrow>
        invocations is_dns_resolve (snd (wifLoginActions env w)) = 1
        \<and> snd (wifLoginActions env w) =
            (Call_isWIF w # (if isWIF env w then [] else [Call_isPrivateKey w]))
              @ [Call_new_Account w, Call_dns_resolve ''google.com'' ''A''])"
  by (auto simp add: wifLoginActions_eq wif_rejected_eq invocations_def split: sum.splits)

lemma watch_probe:
  "(\<not> isAddress env a \<longrightarrow>
      invocations is_dns_resolve (snd (watchOnlyLoginActions env a)) = 0)
   \<and> (fst (watchOnlyLoginActions env a) = Inr r \<longrightarrow>
        invocations is_dns_resolve (snd (watchOnlyLoginActions env a)) = 1
        \<and> snd (watchOnlyLoginActions env a) =
            [Call_isAddress a, Call_dns_resolve ''google.com'' ''A''])"
  by (auto simp add: watchOnlyLoginActions_eq invocations_def)

lemma nep2_probe:
  "(\<not> validatePassphraseLength env p \<or> \<not> isNEP2 env k \<or> decryptAsync env k p = Inl e
      \<or> (decryptAsync env k p = Inr d
           \<and> (new_Account env d = Inl e \<or> upgradeNEP6AddAddresses env k d = Inl e)) \<longrightarrow>
      invocations is_dns_resolve (snd (nep2LoginActions env p k)) = 0)
   \<and> (fst (nep2LoginActions env p k) = Inr r \<longrightarrow>
        invocations is_dns_resolve (snd (nep2LoginActions env p k)) = 1
        \<and> (\<exists>d'. decryptAsync env k p = Inr d'
              \<and> snd (nep2LoginActions env p k) =
                  [Call_validatePassphraseLength p, Call_isNEP2 k, Call_decryptAsync k p,
                   Call_new_Account d', Call_upgradeNEP6AddAddresses k d',
                   Call_dns_resolve ''google.com'' ''A'']))"
  by (auto simp add: nep2LoginActions_eq invocations_def split: sum.splits)

lemma ledger_probe:
  "(getPublicKeyEncoded env pk = Inl e
      \<or> (getPublicKeyEncoded env pk = Inr pe \<and> new_Account env pe = Inl e) \<longrightarrow>
      invocations is_dns_resolve (snd (ledgerLoginActions env pk n)) = 0)
   \<and> (fst (ledgerLoginActions env pk n) = Inr r \<longrightarrow>
        invocations is_dns_resolve (snd (ledgerLoginActions env pk n)) = 1
        \<and> (\<exists>pe'. getPublicKeyEncoded env pk = Inr pe'
              \<and> snd (ledgerLoginActions env pk n) =
                  [Call_getPublicKeyEncoded pk, Call_new_Account pe',
                   Call_dns_resolve ''google.com'' ''A'']))"
  by (auto simp add: ledgerLoginActions_eq invocations_def split: sum.splits)

subsection \<open>Encrypted-key login: the two validation gates\<close>

text \<open>
  C1. In \<open>nep2LoginActions\<close>, a passphrase that fails \<open>validatePassphraseLength\<close> ends
  the login with the error "Passphrase too short" (the spec's \<open>PassphraseTooShort\<close>)
  whatever the encrypted key is: the only call made is the length check, so the format of
  the encrypted key is not even looked at. A passphrase that passes with an encrypted key
  that fails \<open>wallet.isNEP2\<close> ends the login with "Invalid encrypted key entered" (the
  spec's \<open>InvalidCredential\<close>) after exactly the two checks, in this order. In both
  cases \<open>wallet.decryptAsync\<close> is not invoked.
\<close>

theorem nep2_validation_gates:
  "(\<not> validatePassphraseLength env p \<longrightarrow>
      nep2LoginActions env p k =
        (Inl (Error ''Passphrase too short''), [Call_validatePassphraseLength p]))
   \<and> (validatePassphraseLength env p \<and> \<not> isNEP2 env k \<longrightarrow>
      nep2LoginActions env p k =
        (Inl (Error ''Invalid encrypted key entered''),
         [Call_validatePassphraseLength p, Call_isNEP2 k]))
   \<and> (\<not> validatePassphraseLength env p \<or> \<not> isNEP2 env k \<longrightarrow>
      invocations is_decryptAsync (snd (nep2LoginActions env p k)) = 0)"
  by (simp add: nep2LoginActions_eq invocations_def)

theorem nep2_validation_gates_witness:
  "\<not> validatePassphraseLength stub ''abc''
   \<and> nep2LoginActions stub ''abc'' ''nep2-A'' =
       (Inl (Error ''Passphrase too short''), [Call_validatePassphraseLength ''abc''])
   \<and> nep2LoginActions stub ''abc'' ''garbage'' =
       (Inl (Error ''Passphrase too short''), [Call_validatePassphraseLength ''abc''])
   \<and> validatePassphraseLength stub ''secret'' \<and> \<not> isNEP2 stub ''garbage''
   \<and> nep2LoginActions stub ''secret'' ''garbage'' =
       (Inl (Error ''Invalid encrypted key entered''),
        [Call_validatePassphraseLength ''secret'', Call_isNEP2 ''garbage''])
   \<and> invocations is_decryptAsync (snd (nep2LoginActions stub ''abc'' ''nep2-A'')) = 0
   \<and> invocations is_decryptAsync (snd (nep2LoginActions stub ''secret'' ''garbage'')) = 0"
  using nep2_validation_gates [of stub "''abc''" "''nep2-A''"]
        nep2_validation_gates [of stub "''abc''" "''garbage''"]
        nep2_validation_gates [of stub "''secret''" "''garbage''"]
  by (simp add: stub_simps invocations_def)

subsection \<open>Watch-only login\<close>

text \<open>
  C7. For an address accepted by \<open>wallet.isAddress\<close>, \<open>watchOnlyLoginActions\<close> returns
  the session whose \<open>address\<close> is the string supplied, with \<open>isWatchOnly\<close> true,
  \<open>isHardwareLogin\<close> false, no \<open>wif\<close>, no \<open>publicKey\<close>, no \<open>signingFunction\<close>, and
  \<open>hasInternetConnectivity\<close> equal to what the probe returns; the only calls are the
  address check and the probe, so no key is derived or decrypted. For any other string
  it throws "Invalid public key entered" (the spec's \<open>InvalidCredential\<close>) after the
  address check alone.
\<close>

theorem watch_only_login:
  "(isAddress env a \<and> fst (checkForInternetConnectivity env) = Inr h \<longrightarrow>
      watchOnlyLoginActions env a =
        (Inr (Some \<lparr>address = a, wif = None, publicKey = None, signingFunction = None,
                    isHardwareLogin = False, isWatchOnly = Some True,
                    hasInternetConnectivity = h\<rparr>),
         [Call_isAddress a, Call_dns_resolve ''google.com'' ''A'']))
   \<and> (\<not> isAddress env a \<longrightarrow>
      watchOnlyLoginActions env a =
        (Inl (Error ''Invalid public key entered''), [Call_isAddress a]))"
  by (auto simp add: watchOnlyLoginActions_eq checkForInternetConnectivity_eq)

theorem watch_only_login_witness:
  "isAddress stub ''addr-A''
   \<and> fst (checkForInternetConnectivity stub) = Inr True
   \<and> watchOnlyLoginActions stub ''addr-A'' =
       (Inr (Some \<lparr>address = ''addr-A'', wif = None, publicKey = None, signingFunction = None,
                   isHardwareLogin = False, isWatchOnly = Some True,
                   hasInternetConnectivity = True\<rparr>),
        [Call_isAddress ''addr-A'', Call_dns_resolve ''google.com'' ''A''])
   \<and> \<not> isAddress stub ''nobody''
   \<and> watchOnlyLoginActions stub ''nobody'' =
       (Inl (Error ''Invalid public key entered''), [Call_isAddress ''nobody''])"
  using watch_only_login [of stub "''addr-A''" True] watch_only_login [of stub "''nobody''"]
  by (simp add: stub_simps checkForInternetConnectivity_eq)

subsection \<open>Logout\<close>

text \<open>
  C8. \<open>logoutActions\<close> calls \<open>resetBalanceState\<close> exactly once, whether or not there is
  a session, which it does not look at. The reset returning, as its contract says,
  logout returns null and does not throw; dispatched on any store, with or without a
  session, it leaves the session absent; dispatched twice in a row it leaves the
  session absent again, the reset having been called once by each logout.
\<close>

theorem logout_clears_session:
  "invocations is_resetBalanceState (snd (logoutActions env)) = 1
   \<and> (resetBalanceState env = Inr u \<longrightarrow>
        logoutActions env = (Inr None, [Call_resetBalanceState])
        \<and> dispatch (logoutActions env) st =
            (Inr None, st\<lparr>auth := None, calls := calls st @ [Call_resetBalanceState]\<rparr>)
        \<and> snd (dispatch (logoutActions env) (snd (dispatch (logoutActions env) st))) =
            st\<lparr>auth := None,
               calls := calls st @ [Call_resetBalanceState, Call_resetBalanceState]\<rparr>)"
  by (simp add: logoutActions_eq dispatch_def invocations_def split: sum.splits)

theorem logout_clears_session_witness:
  "resetBalanceState stub = Inr ()
   \<and> dispatch (logoutActions stub) \<lparr>auth = None, calls = []\<rparr> =
       (Inr None, \<lparr>auth = None, calls = [Call_resetBalanceState]\<rparr>)
   \<and> dispatch (logoutActions stub)
       \<lparr>auth = Some \<lparr>address = ''addr-A'', wif = None, publicKey = None,
                     signingFunction = None, isHardwareLogin = False,
                     isWatchOnly = Some True, hasInternetConnectivity = True\<rparr>,
        calls = []\<rparr> =
       (Inr None, \<lparr>auth = None, calls = [Call_resetBalanceState]\<rparr>)
   \<and> snd (dispatch (logoutActions stub)
            (snd (dispatch (logoutActions stub) \<lparr>auth = None, calls = []\<rparr>))) =
       \<lparr>auth = None, calls = [Call_resetBalanceState, Call_resetBalanceState]\<rparr>"
  using logout_clears_session [of stub "()" "\<lparr>auth = None, calls = []\<rparr>"]
        logout_clears_session
          [of stub "()"
              "\<lparr>auth = Some \<lparr>address = ''addr-A'', wif = None, publicKey = None,
                     signingFunction = None, isHardwareLogin = False,
                     isWatchOnly = Some True, hasInternetConnectivity = True\<rparr>,
                calls = []\<rparr>"]
  by (auto simp add: stub_simps)

subsection \<open>Encrypted-key login: decryption, derivation and the address-book upgrade\<close>

text \<open>
  C2. Take a call of \<open>nep2LoginActions\<close> whose passphrase and encrypted key pass both
  gates, whose decryption gives a key, and from whose key the library builds an account.
  Then \<open>upgradeNEP6AddAddresses\<close> is invoked exactly once, with the original encrypted
  key and the decrypted key. When the upgrade returns (and the getters of the account
  do), the login returns the session with the \<open>address\<close> and the \<open>WIF\<close> of that
  account, and the upgrade stands in the call log after the construction of the account
  and before the connectivity probe: it is awaited. When the upgrade rejects, the login
  throws what the upgrade threw: no session is returned, and the upgrade is the last
  call made. Conversely, every session that the login returns comes from such a call.
\<close>

theorem nep2_upgrade_awaited:
  "(validatePassphraseLength env p \<and> isNEP2 env k \<and> decryptAsync env k p = Inr w
        \<and> new_Account env w = Inr a \<longrightarrow>
      filter is_upgradeNEP6AddAddresses (snd (nep2LoginActions env p k)) =
        [Call_upgradeNEP6AddAddresses k w]
      \<and> invocations is_upgradeNEP6AddAddresses (snd (nep2LoginActions env p k)) = 1)
   \<and> (validatePassphraseLength env p \<and> isNEP2 env k \<and> decryptAsync env k p = Inr w
        \<and> new_Account env w = Inr a \<and> upgradeNEP6AddAddresses env k w = Inr u
        \<and> WIF a = Inr x \<and> Account.address a = Inr y
        \<and> fst (checkForInternetConnectivity env) = Inr h \<longrightarrow>
      nep2LoginActions env p k =
        (Inr (Some \<lparr>address = y, wif = Some x, publicKey = None, signingFunction = None,
                    isHardwareLogin = False, isWatchOnly = None,
                    hasInternetConnectivity = h\<rparr>),
         [Call_validatePassphraseLength p, Call_isNEP2 k, Call_decryptAsync k p,
          Call_new_Account w, Call_upgradeNEP6AddAddresses k w,
          Call_dns_resolve ''google.com'' ''A'']))
   \<and> (validatePassphraseLength env p \<and> isNEP2 env k \<and> decryptAsync env k p = Inr w
        \<and> new_Account env w = Inr a \<and> upgradeNEP6AddAddresses env k w = Inl e \<longrightarrow>
      nep2LoginActions env p k =
        (Inl e, [Call_validatePassphraseLength p, Call_isNEP2 k, Call_decryptAsync k p,
                 Call_new_Account w, Call_upgradeNEP6AddAddresses k w]))
   \<and> (nep2LoginActions env p k = (Inr (Some s), cs) \<longrightarrow>
      (\<exists>w a. decryptAsync env k p = Inr w \<and> new_Account env w = Inr a
         \<and> Account.address a = Inr (AccountType.address s)
         \<and> invocations is_upgradeNEP6AddAddresses cs = 1
         \<and> cs = [Call_validatePassphraseLength p, Call_isNEP2 k, Call_decryptAsync k p,
                 Call_new_Account w, Call_upgradeNEP6AddAddresses k w,
                 Call_dns_resolve ''google.com'' ''A'']))"
proof (intro conjI impI)
  assume "validatePassphraseLength env p \<and> isNEP2 env k \<and> decryptAsync env k p = Inr w
        \<and> new_Account env w = Inr a"
  then have "filter is_upgradeNEP6AddAddresses (snd (nep2LoginActions env p k)) =
        [Call_upgradeNEP6AddAddresses k w]"
    by (simp add: nep2LoginActions_eq split: sum.splits)
  then show "filter is_upgradeNEP6AddAddresses (snd (nep2LoginActions env p k)) =
        [Call_upgradeNEP6AddAddresses k w]"
    and "invocations is_upgradeNEP6AddAddresses (snd (nep2LoginActions env p k)) = 1"
    by (simp_all add: invocations_def)
next
  assume "validatePassphraseLength env p \<and> isNEP2 env k \<and> decryptAsync env k p = Inr w
        \<and> new_Account env w = Inr a \<and> upgradeNEP6AddAddresses env k w = Inr u
        \<and> WIF a = Inr x \<and> Account.address a = Inr y
        \<and> fst (checkForInternetConnectivity env) = Inr h"
  then show "nep2LoginActions env p k =
        (Inr (Some \<lparr>address = y, wif = Some x, publicKey = None, signingFunction = None,
                    isHardwareLogin = False, isWatchOnly = None,
                    hasInternetConnectivity = h\<rparr>),
         [Call_validatePassphraseLength p, Call_isNEP2 k, Call_decryptAsync k p,
          Call_new_Account w, Call_upgradeNEP6AddAddresses k w,
          Call_dns_resolve ''google.com'' ''A''])"
    by (auto simp add: nep2LoginActions_eq checkForInternetConnectivity_eq)
next
  assume "validatePassphraseLength env p \<and> isNEP2 env k \<and> decryptAsync env k p = Inr w
        \<and> new_Account env w = Inr a \<and> upgradeNEP6AddAddresses env k w = Inl e"
  then show "nep2LoginActions env p k =
        (Inl e, [Call_validatePassphraseLength p, Call_isNEP2 k, Call_decryptAsync k p,
                 Call_new_Account w, Call_upgradeNEP6AddAddresses k w])"
    by (simp add: nep2LoginActions_eq)
next
  assume "nep2LoginActions env p k = (Inr (Some s), cs)"
  then show "\<exists>w a. decryptAsync env k p = Inr w \<and> new_Account env w = Inr a
         \<and> Account.address a = Inr (AccountType.address s)
         \<and> invocations is_upgradeNEP6AddAddresses cs = 1
         \<and> cs = [Call_validatePassphraseLength p, Call_isNEP2 k, Call_decryptAsync k p,
                 Call_new_Account w, Call_upgradeNEP6AddAddresses k w,
                 Call_dns_resolve ''google.com'' ''A'']"
    by (auto simp add: nep2LoginActions_eq invocations_def split: if_splits sum.splits)
qed

theorem nep2_upgrade_awaited_witness:
  "validatePassphraseLength stub ''secret'' \<and> isNEP2 stub ''nep2-A''
   \<and> decryptAsync stub ''nep2-A'' ''secret'' = Inr ''wif-A''
   \<and> new_Account stub ''wif-A'' = Inr key_account
   \<and> upgradeNEP6AddAddresses stub ''nep2-A'' ''wif-A'' = Inr ()
   \<and> Account.address key_account = Inr ''addr-A''
   \<and> nep2LoginActions stub ''secret'' ''nep2-A'' =
       (Inr (Some \<lparr>address = ''addr-A'', wif = Some ''wif-A'', publicKey = None,
                   signingFunction = None, isHardwareLogin = False, isWatchOnly = None,
                   hasInternetConnectivity = True\<rparr>),
        [Call_validatePassphraseLength ''secret'', Call_isNEP2 ''nep2-A'',
         Call_decryptAsync ''nep2-A'' ''secret'', Call_new_Account ''wif-A'',
         Call_upgradeNEP6AddAddresses ''nep2-A'' ''wif-A'',
         Call_dns_resolve ''google.com'' ''A''])
   \<and> invocations is_upgradeNEP6AddAddresses (snd (nep2LoginActions stub ''secret'' ''nep2-A''))
       = 1
   \<and> nep2LoginActions (stub\<lparr>upgradeNEP6AddAddresses := \<lambda>k w. Inl (Error ''EACCES'')\<rparr>)
        ''secret'' ''nep2-A'' =
       (Inl (Error ''EACCES''),
        [Call_validatePassphraseLength ''secret'', Call_isNEP2 ''nep2-A'',
         Call_decryptAsync ''nep2-A'' ''secret'', Call_new_Account ''wif-A'',
         Call_upgradeNEP6AddAddresses ''nep2-A'' ''wif-A''])
   \<and> invocations is_upgradeNEP6AddAddresses
        (snd (nep2LoginActions (stub\<lparr>upgradeNEP6AddAddresses := \<lambda>k w. Inl (Error ''EACCES'')\<rparr>)
               ''secret'' ''nep2-A'')) = 1"
proof -
  note ok = nep2_upgrade_awaited
      [where env = stub and p = "''secret''" and k = "''nep2-A''" and w = "''wif-A''"
         and a = key_account and u = "()" and x = "''wif-A''" and y = "''addr-A''"
         and h = True]
  note rejected = nep2_upgrade_awaited
      [where env = "stub\<lparr>upgradeNEP6AddAddresses := \<lambda>k w. Inl (Error ''EACCES'')\<rparr>"
         and p = "''secret''" and k = "''nep2-A''" and w = "''wif-A''"
         and a = key_account and e = "Error ''EACCES''"]
  have given: "validatePassphraseLength stub ''secret'' \<and> isNEP2 stub ''nep2-A''
      \<and> decryptAsync stub ''nep2-A'' ''secret'' = Inr ''wif-A''
      \<and> new_Account stub ''wif-A'' = Inr key_account
      \<and> upgradeNEP6AddAddresses stub ''nep2-A'' ''wif-A'' = Inr ()
      \<and> Account.address key_account = Inr ''addr-A''"
    by (simp add: stub_simps key_account_def)
  have once: "invocations is_upgradeNEP6AddAddresses
      (snd (nep2LoginActions stub ''secret'' ''nep2-A'')) = 1"
    using ok [THEN conjunct1] by (simp add: stub_simps)
  have run: "nep2LoginActions stub ''secret'' ''nep2-A'' =
       (Inr (Some \<lparr>address = ''addr-A'', wif = Some ''wif-A'', publicKey = None,
                   signingFunction = None, isHardwareLogin = False, isWatchOnly = None,
                   hasInternetConnectivity = True\<rparr>),
        [Call_validatePassphraseLength ''secret'', Call_isNEP2 ''nep2-A'',
         Call_decryptAsync ''nep2-A'' ''secret'', Call_new_Account ''wif-A'',
         Call_upgradeNEP6AddAddresses ''nep2-A'' ''wif-A'',
         Call_dns_resolve ''google.com'' ''A''])"
    using ok [THEN conjunct2, THEN conjunct1]
    by (simp add: stub_simps key_account_def checkForInternetConnectivity_eq)
  have once': "invocations is_upgradeNEP6AddAddresses
        (snd (nep2LoginActions (stub\<lparr>upgradeNEP6AddAddresses := \<lambda>k w. Inl (Error ''EACCES'')\<rparr>)
               ''secret'' ''nep2-A'')) = 1"
    using rejected [THEN conjunct1] by (simp add: stub_simps)
  have run': "nep2LoginActions (stub\<lparr>upgradeNEP6AddAddresses := \<lambda>k w. Inl (Error ''EACCES'')\<rparr>)
        ''secret'' ''nep2-A'' =
       (Inl (Error ''EACCES''),
        [Call_validatePassphraseLength ''secret'', Call_isNEP2 ''nep2-A'',
         Call_decryptAsync ''nep2-A'' ''secret'', Call_new_Account ''wif-A'',
         Call_upgradeNEP6AddAddresses ''nep2-A'' ''wif-A''])"
    using rejected [THEN conjunct2, THEN conjunct2, THEN conjunct1]
    by (simp add: stub_simps)
  from given once run once' run' show ?thesis by (intro conjI) (simp_all only:)
qed

subsection \<open>Private-key login\<close>

text \<open>
  C3. For a string that \<open>wallet.isWIF\<close> or \<open>wallet.isPrivateKey\<close> accepts, and from
  which the library derives an account (the constructor returns, and so do the getters
  \<open>WIF\<close> and \<open>address\<close>), \<open>wifLoginActions\<close> returns the session with that \<open>wif\<close> and
  that \<open>address\<close>, \<open>isHardwareLogin\<close> false, no \<open>isWatchOnly\<close>, no \<open>publicKey\<close>, no
  \<open>signingFunction\<close>, and \<open>hasInternetConnectivity\<close> equal to what the probe returns.
\<close>

theorem wif_login_session:
  assumes "isWIF env w \<or> isPrivateKey env w"
    and "new_Account env w = Inr a"
    and "WIF a = Inr x"
    and "Account.address a = Inr y"
    and "fst (checkForInternetConnectivity env) = Inr h"
  shows "fst (wifLoginActions env w) =
           Inr (Some \<lparr>address = y, wif = Some x, publicKey = None, signingFunction = None,
                      isHardwareLogin = False, isWatchOnly = None,
                      hasInternetConnectivity = h\<rparr>)"
  using assms by (auto simp add: wifLoginActions_eq checkForInternetConnectivity_eq)

theorem wif_login_session_witness:
  "fst (wifLoginActions stub ''wif-A'') =
     Inr (Some \<lparr>address = ''addr-A'', wif = Some ''wif-A'', publicKey = None,
                signingFunction = None, isHardwareLogin = False, isWatchOnly = None,
                hasInternetConnectivity = True\<rparr>)
   \<and> fst (wifLoginActions stub ''key-A'') =
     Inr (Some \<lparr>address = ''addr-A'', wif = Some ''wif-A'', publicKey = None,
                signingFunction = None, isHardwareLogin = False, isWatchOnly = None,
                hasInternetConnectivity = True\<rparr>)"
  using wif_login_session [of stub "''wif-A''" key_account "''wif-A''" "''addr-A''" True]
        wif_login_session [of stub "''key-A''" key_account "''wif-A''" "''addr-A''" True]
  by (simp add: stub_simps key_account_def checkForInternetConnectivity_eq)

text \<open>
  C6. For a string that neither \<open>wallet.isWIF\<close> nor \<open>wallet.isPrivateKey\<close> accepts,
  \<open>wifLoginActions\<close> throws "Invalid private key entered" (the spec's
  \<open>InvalidCredential\<close>) after the two checks alone: the constructor of the account is
  not invoked. Dispatched on a store, the failed login returns the error and leaves the
  session of the store as it was.
\<close>

theorem wif_login_rejects:
  assumes "\<not> isWIF env w" and "\<not> isPrivateKey env w"
  shows "wifLoginActions env w =
           (Inl (Error ''Invalid private key entered''), [Call_isWIF w, Call_isPrivateKey w])
         \<and> invocations is_new_Account (snd (wifLoginActions env w)) = 0
         \<and> dispatch (wifLoginActions env w) st =
             (Inl (Error ''Invalid private key entered''),
              st\<lparr>calls := calls st @ [Call_isWIF w, Call_isPrivateKey w]\<rparr>)
         \<and> auth (snd (dispatch (wifLoginActions env w) st)) = auth st"
  using assms by (simp add: wifLoginActions_eq dispatch_def invocations_def)

theorem wif_login_rejects_witness:
  "\<not> isWIF stub ''garbage'' \<and> \<not> isPrivateKey stub ''garbage''
   \<and> dispatch (wifLoginActions stub ''garbage'')
       \<lparr>auth = Some \<lparr>address = ''addr-B'', wif = None, publicKey = None,
                     signingFunction = None, isHardwareLogin = False,
                     isWatchOnly = Some True, hasInternetConnectivity = True\<rparr>,
        calls = []\<rparr> =
     (Inl (Error ''Invalid private key entered''),
      \<lparr>auth = Some \<lparr>address = ''addr-B'', wif = None, publicKey = None,
                    signingFunction = None, isHardwareLogin = False,
                    isWatchOnly = Some True, hasInternetConnectivity = True\<rparr>,
       calls = [Call_isWIF ''garbage'', Call_isPrivateKey ''garbage'']\<rparr>)"
  using wif_login_rejects [of stub "''garbage''"
      "\<lparr>auth = Some \<lparr>address = ''addr-B'', wif = None, publicKey = None,
                     signingFunction = None, isHardwareLogin = False,
                     isWatchOnly = Some True, hasInternetConnectivity = True\<rparr>,
        calls = []\<rparr>"]
  by (auto simp add: stub_simps)

text \<open>
  C10. The \<open>wif\<close> of the session that \<open>wifLoginActions\<close> or \<open>nep2LoginActions\<close> returns
  is what the getter \<open>WIF\<close> of the account object gives: the account built from the
  input string in the first case, from the string that \<open>wallet.decryptAsync\<close> returned
  in the second. When the input of \<open>wifLoginActions\<close> is not a WIF, it is a raw private
  key, and, the getter giving a string that is a WIF, the \<open>wif\<close> of the session differs
  from the input.
\<close>

theorem session_wif_is_account_WIF:
  "(wifLoginActions env w = (Inr (Some s), cs) \<longrightarrow>
      (\<exists>a x. new_Account env w = Inr a \<and> WIF a = Inr x \<and> wif s = Some x
         \<and> (\<not> isWIF env w \<and> isWIF env x \<longrightarrow> isPrivateKey env w \<and> wif s \<noteq> Some w)))
   \<and> (nep2LoginActions env p k = (Inr (Some s'), cs') \<longrightarrow>
      (\<exists>d a x. decryptAsync env k p = Inr d \<and> new_Account env d = Inr a
         \<and> WIF a = Inr x \<and> wif s' = Some x))"
proof (intro conjI impI)
  assume "wifLoginActions env w = (Inr (Some s), cs)"
  then show "\<exists>a x. new_Account env w = Inr a \<and> WIF a = Inr x \<and> wif s = Some x
         \<and> (\<not> isWIF env w \<and> isWIF env x \<longrightarrow> isPrivateKey env w \<and> wif s \<noteq> Some w)"
    by (auto simp add: wifLoginActions_eq split: if_splits sum.splits)
next
  assume "nep2LoginActions env p k = (Inr (Some s'), cs')"
  then show "\<exists>d a x. decryptAsync env k p = Inr d \<and> new_Account env d = Inr a
         \<and> WIF a = Inr x \<and> wif s' = Some x"
    by (auto simp add: nep2LoginActions_eq split: if_splits sum.splits)
qed

theorem session_wif_is_account_WIF_witness:
  "(\<exists>s cs x. wifLoginActions stub ''key-A'' = (Inr (Some s), cs)
       \<and> \<not> isWIF stub ''key-A'' \<and> isPrivateKey stub ''key-A'' \<and> isWIF stub x
       \<and> wif s = Some x \<and> wif s \<noteq> Some ''key-A'')
   \<and> (\<exists>s cs d x. nep2LoginActions (stub\<lparr>decryptAsync := \<lambda>k p. Inr ''key-A''\<rparr>)
                     ''secret'' ''nep2-A'' = (Inr (Some s), cs)
       \<and> decryptAsync (stub\<lparr>decryptAsync := \<lambda>k p. Inr ''key-A''\<rparr>) ''nep2-A'' ''secret''
           = Inr d
       \<and> wif s = Some x \<and> x \<noteq> d)"
proof (intro conjI)
  show "\<exists>s cs x. wifLoginActions stub ''key-A'' = (Inr (Some s), cs)
       \<and> \<not> isWIF stub ''key-A'' \<and> isPrivateKey stub ''key-A'' \<and> isWIF stub x
       \<and> wif s = Some x \<and> wif s \<noteq> Some ''key-A''"
    using session_wif_is_account_WIF [THEN conjunct1, rule_format, OF wif_stub_run]
      wif_stub_run
    by (auto simp add: stub_simps)
  show "\<exists>s cs d x. nep2LoginActions (stub\<lparr>decryptAsync := \<lambda>k p. Inr ''key-A''\<rparr>)
                     ''secret'' ''nep2-A'' = (Inr (Some s), cs)
       \<and> decryptAsync (stub\<lparr>decryptAsync := \<lambda>k p. Inr ''key-A''\<rparr>) ''nep2-A'' ''secret''
           = Inr d
       \<and> wif s = Some x \<and> x \<noteq> d"
    using session_wif_is_account_WIF [THEN conjunct2, rule_format, OF nep2_raw_stub_run]
      nep2_raw_stub_run
    by auto
qed

subsection \<open>Hardware login\<close>

text \<open>
  C4. Every session that \<open>ledgerLoginActions\<close> returns for the public key \<open>pk\<close> and the
  device account index \<open>n\<close> has \<open>isHardwareLogin\<close> true, \<open>publicKey\<close> equal to \<open>pk\<close> as
  given (not to its encoded form), no \<open>wif\<close>, the address of the account that the
  library builds from \<open>wallet.getPublicKeyEncoded(pk)\<close>, and as \<open>signingFunction\<close> the
  function \<open>ledgerNanoSCreateSignatureAsync\<close> with \<open>n\<close> bound from its third argument on
  by \<open>bindArgsFromN\<close>.
\<close>

theorem ledger_login_session:
  assumes "ledgerLoginActions env pk n = (Inr (Some s), cs)"
  shows "isHardwareLogin s \<and> publicKey s = Some pk \<and> wif s = None
         \<and> signingFunction s =
             Some (bindArgsFromN env (ledgerNanoSCreateSignatureAsync env) 3 n)
         \<and> (\<exists>pe a. getPublicKeyEncoded env pk = Inr pe \<and> new_Account env pe = Inr a
               \<and> Account.address a = Inr (AccountType.address s))"
  using assms by (auto simp add: ledgerLoginActions_eq split: sum.splits)

theorem ledger_login_session_witness:
  "ledgerLoginActions stub ''pub-B'' 2 =
     (Inr (Some \<lparr>address = ''addr-B'', wif = None, publicKey = Some ''pub-B'',
                 signingFunction = Some [3, 2], isHardwareLogin = True, isWatchOnly = None,
                 hasInternetConnectivity = True\<rparr>),
      [Call_getPublicKeyEncoded ''pub-B'', Call_new_Account ''pub-B-encoded'',
       Call_dns_resolve ''google.com'' ''A''])
   \<and> Some [3, 2] = Some (bindArgsFromN stub (ledgerNanoSCreateSignatureAsync stub) 3 2)
   \<and> (\<exists>pe a. getPublicKeyEncoded stub ''pub-B'' = Inr pe \<and> new_Account stub pe = Inr a
         \<and> Account.address a = Inr ''addr-B'')"
  using ledger_login_session [OF ledger_stub_run] ledger_stub_run
  by simp

subsection \<open>The connectivity probe\<close>

text \<open>
  C5. \<open>checkForInternetConnectivity\<close> never throws: it makes one DNS resolution and
  returns a boolean, true when the resolution gave no error and false when it gave one.
  When the resolution gives an error, each of the four logins whose other steps succeed
  still returns its session, every other field as it is with a working resolver and
  \<open>hasInternetConnectivity\<close> false; and in general each login then does what it does
  with a working resolver, with the same calls and the same error if it fails, except
  for that field.
\<close>

theorem probe_never_aborts_login:
  "checkForInternetConnectivity env =
     (Inr (dns_resolve env ''google.com'' ''A'' = None), [Call_dns_resolve ''google.com'' ''A''])
   \<and> (dns_resolve env ''google.com'' ''A'' = Some err \<longrightarrow>
        checkForInternetConnectivity env = (Inr False, [Call_dns_resolve ''google.com'' ''A'']))
   \<and> (dns_resolve env ''google.com'' ''A'' = Some err
        \<and> (isWIF env w \<or> isPrivateKey env w) \<and> new_Account env w = Inr acc
        \<and> WIF acc = Inr x \<and> Account.address acc = Inr y \<longrightarrow>
        fst (wifLoginActions env w) =
          Inr (Some \<lparr>address = y, wif = Some x, publicKey = None, signingFunction = None,
                     isHardwareLogin = False, isWatchOnly = None,
                     hasInternetConnectivity = False\<rparr>))
   \<and> (dns_resolve env ''google.com'' ''A'' = Some err \<and> isAddress env a \<longrightarrow>
        fst (watchOnlyLoginActions env a) =
          Inr (Some \<lparr>address = a, wif = None, publicKey = None, signingFunction = None,
                     isHardwareLogin = False, isWatchOnly = Some True,
                     hasInternetConnectivity = False\<rparr>))
   \<and> (dns_resolve env ''google.com'' ''A'' = Some err
        \<and> validatePassphraseLength env p \<and> isNEP2 env k \<and> decryptAsync env k p = Inr d
        \<and> new_Account env d = Inr acc' \<and> upgradeNEP6AddAddresses env k d = Inr u
        \<and> WIF acc' = Inr x' \<and> Account.address acc' = Inr y' \<longrightarrow>
        fst (nep2LoginActions env p k) =
          Inr (Some \<lparr>address = y', wif = Some x', publicKey = None, signingFunction = None,
                     isHardwareLogin = False, isWatchOnly = None,
                     hasInternetConnectivity = False\<rparr>))
   \<and> (dns_resolve env ''google.com'' ''A'' = Some err
        \<and> getPublicKeyEncoded env pk = Inr pe \<and> new_Account env pe = Inr acc''
        \<and> Account.address acc'' = Inr y'' \<longrightarrow>
        fst (ledgerLoginActions env pk n) =
          Inr (Some \<lparr>address = y'', wif = None, publicKey = Some pk,
                     signingFunction =
                       Some (bindArgsFromN env (ledgerNanoSCreateSignatureAsync env) 3 n),
                     isHardwareLogin = True, isWatchOnly = None,
                     hasInternetConnectivity = False\<rparr>))
   \<and> (dns_resolve env ''google.com'' ''A'' = Some err \<longrightarrow>
        wifLoginActions env w =
          no_connectivity (wifLoginActions (env\<lparr>dns_resolve := \<lambda>_ _. None\<rparr>) w)
        \<and> watchOnlyLoginActions env a =
          no_connectivity (watchOnlyLoginActions (env\<lparr>dns_resolve := \<lambda>_ _. None\<rparr>) a)
        \<and> nep2LoginActions env p k =
          no_connectivity (nep2LoginActions (env\<lparr>dns_resolve := \<lambda>_ _. None\<rparr>) p k)
        \<and> ledgerLoginActions env pk n =
          no_connectivity (ledgerLoginActions (env\<lparr>dns_resolve := \<lambda>_ _. None\<rparr>) pk n))"
proof (intro conjI impI)
  show "checkForInternetConnectivity env =
     (Inr (dns_resolve env ''google.com'' ''A'' = None), [Call_dns_resolve ''google.com'' ''A''])"
    by (rule checkForInternetConnectivity_eq)
next
  assume "dns_resolve env ''google.com'' ''A'' = Some err"
  then show "checkForInternetConnectivity env =
      (Inr False, [Call_dns_resolve ''google.com'' ''A''])"
    by (simp add: checkForInternetConnectivity_eq)
next
  assume "dns_resolve env ''google.com'' ''A'' = Some err
        \<and> (isWIF env w \<or> isPrivateKey env w) \<and> new_Account env w = Inr acc
        \<and> WIF acc = Inr x \<and> Account.address acc = Inr y"
  then show "fst (wifLoginActions env w) =
          Inr (Some \<lparr>address = y, wif = Some x, publicKey = None, signingFunction = None,
                     isHardwareLogin = False, isWatchOnly = None,
                     hasInternetConnectivity = False\<rparr>)"
    by (auto simp add: wifLoginActions_eq)
next
  assume "dns_resolve env ''google.com'' ''A'' = Some err \<and> isAddress env a"
  then show "fst (watchOnlyLoginActions env a) =
          Inr (Some \<lparr>address = a, wif = None, publicKey = None, signingFunction = None,
                     isHardwareLogin = False, isWatchOnly = Some True,
                     hasInternetConnectivity = False\<rparr>)"
    by (simp add: watchOnlyLoginActions_eq)
next
  assume "dns_resolve env ''google.com'' ''A'' = Some err
        \<and> validatePassphraseLength env p \<and> isNEP2 env k \<and> decryptAsync env k p = Inr d
        \<and> new_Account env d = Inr acc' \<and> upgradeNEP6AddAddresses env k d = Inr u
        \<and> WIF acc' = Inr x' \<and> Account.address acc' = Inr y'"
  then show "fst (nep2LoginActions env p k) =
          Inr (Some \<lparr>address = y', wif = Some x', publicKey = None, signingFunction = None,
                     isHardwareLogin = False, isWatchOnly = None,
                     hasInternetConnectivity = False\<rparr>)"
    by (simp add: nep2LoginActions_eq)
next
  assume "dns_resolve env ''google.com'' ''A'' = Some err
        \<and> getPublicKeyEncoded env pk = Inr pe \<and> new_Account env pe = Inr acc''
        \<and> Account.address acc'' = Inr y''"
  then show "fst (ledgerLoginActions env pk n) =
          Inr (Some \<lparr>address = y'', wif = None, publicKey = Some pk,
                     signingFunction =
                       Some (bindArgsFromN env (ledgerNanoSCreateSignatureAsync env) 3 n),
                     isHardwareLogin = True, isWatchOnly = None,
                     hasInternetConnectivity = False\<rparr>)"
    by (simp add: ledgerLoginActions_eq)
next
  assume down: "dns_resolve env ''google.com'' ''A'' = Some err"
  show "wifLoginActions env w =
          no_connectivity (wifLoginActions (env\<lparr>dns_resolve := \<lambda>_ _. None\<rparr>) w)"
    by (rule wif_no_connectivity [OF down])
  show "watchOnlyLoginActions env a =
          no_connectivity (watchOnlyLoginActions (env\<lparr>dns_resolve := \<lambda>_ _. None\<rparr>) a)"
    by (rule watch_no_connectivity [OF down])
  show "nep2LoginActions env p k =
          no_connectivity (nep2LoginActions (env\<lparr>dns_resolve := \<lambda>_ _. None\<rparr>) p k)"
    by (rule nep2_no_connectivity [OF down])
  show "ledgerLoginActions env pk n =
          no_connectivity (ledgerLoginActions (env\<lparr>dns_resolve := \<lambda>_ _. None\<rparr>) pk n)"
    by (rule ledger_no_connectivity [OF down])
qed

theorem probe_never_aborts_login_witness:
  "dns_resolve (stub\<lparr>dns_resolve := \<lambda>_ _. Some (Error ''ENOTFOUND'')\<rparr>) ''google.com'' ''A''
     = Some (Error ''ENOTFOUND'')
   \<and> checkForInternetConnectivity (stub\<lparr>dns_resolve := \<lambda>_ _. Some (Error ''ENOTFOUND'')\<rparr>) =
     (Inr False, [Call_dns_resolve ''google.com'' ''A''])
   \<and> checkForInternetConnectivity stub = (Inr True, [Call_dns_resolve ''google.com'' ''A''])
   \<and> fst (wifLoginActions (stub\<lparr>dns_resolve := \<lambda>_ _. Some (Error ''ENOTFOUND'')\<rparr>) ''key-A'') =
     Inr (Some \<lparr>address = ''addr-A'', wif = Some ''wif-A'', publicKey = None,
                signingFunction = None, isHardwareLogin = False, isWatchOnly = None,
                hasInternetConnectivity = False\<rparr>)
   \<and> fst (watchOnlyLoginActions (stub\<lparr>dns_resolve := \<lambda>_ _. Some (Error ''ENOTFOUND'')\<rparr>)
            ''addr-A'') =
     Inr (Some \<lparr>address = ''addr-A'', wif = None, publicKey = None,
                signingFunction = None, isHardwareLogin = False, isWatchOnly = Some True,
                hasInternetConnectivity = False\<rparr>)
   \<and> fst (nep2LoginActions (stub\<lparr>dns_resolve := \<lambda>_ _. Some (Error ''ENOTFOUND'')\<rparr>)
            ''secret'' ''nep2-A'') =
     Inr (Some \<lparr>address = ''addr-A'', wif = Some ''wif-A'', publicKey = None,
                signingFunction = None, isHardwareLogin = False, isWatchOnly = None,
                hasInternetConnectivity = False\<rparr>)
   \<and> fst (ledgerLoginActions (stub\<lparr>dns_resolve := \<lambda>_ _. Some (Error ''ENOTFOUND'')\<rparr>)
            ''pub-B'' 2) =
     Inr (Some \<lparr>address = ''addr-B'', wif = None, publicKey = Some ''pub-B'',
                signingFunction = Some [3, 2], isHardwareLogin = True, isWatchOnly = None,
                hasInternetConnectivity = False\<rparr>)
   \<and> nep2LoginActions (stub\<lparr>dns_resolve := \<lambda>_ _. Some (Error ''ENOTFOUND'')\<rparr>)
       ''secret'' ''nep2-A'' = no_connectivity (nep2LoginActions stub ''secret'' ''nep2-A'')"
proof -
  note down = probe_never_aborts_login
          [where env = "stub\<lparr>dns_resolve := \<lambda>_ _. Some (Error ''ENOTFOUND'')\<rparr>"
             and err = "Error ''ENOTFOUND''" and w = "''key-A''" and acc = key_account
             and x = "''wif-A''" and y = "''addr-A''" and a = "''addr-A''"
             and p = "''secret''" and k = "''nep2-A''" and d = "''wif-A''"
             and acc' = key_account and u = "()" and x' = "''wif-A''" and y' = "''addr-A''"
             and pk = "''pub-B''" and pe = "''pub-B-encoded''" and acc'' = pub_account
             and y'' = "''addr-B''" and n = 2]
  note rest = down [THEN conjunct2]
  note rest2 = rest [THEN conjunct2]
  note rest3 = rest2 [THEN conjunct2]
  note rest4 = rest3 [THEN conjunct2]
  note rest5 = rest4 [THEN conjunct2]
  note rest6 = rest5 [THEN conjunct2]
  have c0: "dns_resolve (stub\<lparr>dns_resolve := \<lambda>_ _. Some (Error ''ENOTFOUND'')\<rparr>)
      ''google.com'' ''A'' = Some (Error ''ENOTFOUND'')"
    by simp
  have c1: "checkForInternetConnectivity
      (stub\<lparr>dns_resolve := \<lambda>_ _. Some (Error ''ENOTFOUND'')\<rparr>) =
     (Inr False, [Call_dns_resolve ''google.com'' ''A''])"
    using rest [THEN conjunct1] by simp
  have c2: "checkForInternetConnectivity stub =
      (Inr True, [Call_dns_resolve ''google.com'' ''A''])"
    using probe_never_aborts_login [where env = stub, THEN conjunct1]
    by (simp add: stub_simps)
  have c3: "fst (wifLoginActions (stub\<lparr>dns_resolve := \<lambda>_ _. Some (Error ''ENOTFOUND'')\<rparr>)
      ''key-A'') =
     Inr (Some \<lparr>address = ''addr-A'', wif = Some ''wif-A'', publicKey = None,
                signingFunction = None, isHardwareLogin = False, isWatchOnly = None,
                hasInternetConnectivity = False\<rparr>)"
    using rest2 [THEN conjunct1] by (simp add: stub_simps key_account_def)
  have c4: "fst (watchOnlyLoginActions (stub\<lparr>dns_resolve := \<lambda>_ _. Some (Error ''ENOTFOUND'')\<rparr>)
            ''addr-A'') =
     Inr (Some \<lparr>address = ''addr-A'', wif = None, publicKey = None,
                signingFunction = None, isHardwareLogin = False, isWatchOnly = Some True,
                hasInternetConnectivity = False\<rparr>)"
    using rest3 [THEN conjunct1] by (simp add: stub_simps)
  have c5: "fst (nep2LoginActions (stub\<lparr>dns_resolve := \<lambda>_ _. Some (Error ''ENOTFOUND'')\<rparr>)
            ''secret'' ''nep2-A'') =
     Inr (Some \<lparr>address = ''addr-A'', wif = Some ''wif-A'', publicKey = None,
                signingFunction = None, isHardwareLogin = False, isWatchOnly = None,
                hasInternetConnectivity = False\<rparr>)"
    using rest4 [THEN conjunct1] by (simp add: stub_simps key_account_def)
  have c6: "fst (ledgerLoginActions (stub\<lparr>dns_resolve := \<lambda>_ _. Some (Error ''ENOTFOUND'')\<rparr>)
            ''pub-B'' 2) =
     Inr (Some \<lparr>address = ''addr-B'', wif = None, publicKey = Some ''pub-B'',
                signingFunction = Some [3, 2], isHardwareLogin = True, isWatchOnly = None,
                hasInternetConnectivity = False\<rparr>)"
    using rest5 [THEN conjunct1] by (simp add: stub_simps pub_account_def)
  have c7: "nep2LoginActions (stub\<lparr>dns_resolve := \<lambda>_ _. Some (Error ''ENOTFOUND'')\<rparr>)
       ''secret'' ''nep2-A'' = no_connectivity (nep2LoginActions stub ''secret'' ''nep2-A'')"
    using rest6 [rule_format, OF c0, THEN conjunct2, THEN conjunct2, THEN conjunct1]
    by (simp only: stub_dns_restored)
  from c0 c1 c2 c3 c4 c5 c6 c7 show ?thesis by (intro conjI) (simp_all only:)
qed

text \<open>
  C9. In each of the four logins the probe comes after every step that the login has
  before it (the checks of the input, the decryption, the construction of the account,
  the address-book upgrade): when one of these fails the resolver is not invoked at all,
  and in a login that returns a session it is invoked exactly once, as the last call of
  the log, which lists the earlier steps in their order. Only the construction of the
  session object follows, in which the properties of the account are read.
\<close>

theorem probe_follows_earlier_steps:
  "(((\<not> isWIF env w \<and> \<not> isPrivateKey env w) \<or> new_Account env w = Inl e \<longrightarrow>
      invocations is_dns_resolve (snd (wifLoginActions env w)) = 0)
   \<and> (fst (wifLoginActions env w) = Inr r \<longrightarrow>
        invocations is_dns_resolve (snd (wifLoginActions env w)) = 1
        \<and> snd (wifLoginActions env w) =
            (Call_isWIF w # (if isWIF env w then [] else [Call_isPrivateKey w]))
              @ [Call_new_Account w, Call_dns_resolve ''google.com'' ''A'']))
   \<and> ((\<not> isAddress env a \<longrightarrow>
      invocations is_dns_resolve (snd (watchOnlyLoginActions env a)) = 0)
   \<and> (fst (watchOnlyLoginActions env a) = Inr r \<longrightarrow>
        invocations is_dns_resolve (snd (watchOnlyLoginActions env a)) = 1
        \<and> snd (watchOnlyLoginActions env a) =
            [Call_isAddress a, Call_dns_resolve ''google.com'' ''A'']))
   \<and> ((\<not> validatePassphraseLength env p \<or> \<not> isNEP2 env k \<or> decryptAsync env k p = Inl e
      \<or> (decryptAsync env k p = Inr d
           \<and> (new_Account env d = Inl e \<or> upgradeNEP6AddAddresses env k d = Inl e)) \<longrightarrow>
      invocations is_dns_resolve (snd (nep2LoginActions env p k)) = 0)
   \<and> (fst (nep2LoginActions env p k) = Inr r \<longrightarrow>
        invocations is_dns_resolve (snd (nep2LoginActions env p k)) = 1
        \<and> (\<exists>d'. decryptAsync env k p = Inr d'
              \<and> snd (nep2LoginActions env p k) =
                  [Call_validatePassphraseLength p, Call_isNEP2 k, Call_decryptAsync k p,
                   Call_new_Account d', Call_upgradeNEP6AddAddresses k d',
                   Call_dns_resolve ''google.com'' ''A''])))
   \<and> ((getPublicKeyEncoded env pk = Inl e
      \<or> (getPublicKeyEncoded env pk = Inr pe \<and> new_Account env pe = Inl e) \<longrightarrow>
      invocations is_dns_resolve (snd (ledgerLoginActions env pk n)) = 0)
   \<and> (fst (ledgerLoginActions env pk n) = Inr r \<longrightarrow>
        invocations is_dns_resolve (snd (ledgerLoginActions env pk n)) = 1
        \<and> (\<exists>pe'. getPublicKeyEncoded env pk = Inr pe'
              \<and> snd (ledgerLoginActions env pk n) =
                  [Call_getPublicKeyEncoded pk, Call_new_Account pe',
                   Call_dns_resolve ''google.com'' ''A''])))"
  using wif_probe [of env w e r] watch_probe [of env a r] nep2_probe [of env p k e d r]
        ledger_probe [of env pk e pe n r]
  by blast


theorem probe_follows_earlier_steps_witness:
  "invocations is_dns_resolve (snd (wifLoginActions stub ''garbage'')) = 0
   \<and> snd (wifLoginActions stub ''key-A'') =
       [Call_isWIF ''key-A'', Call_isPrivateKey ''key-A'', Call_new_Account ''key-A'',
        Call_dns_resolve ''google.com'' ''A'']
   \<and> invocations is_dns_resolve (snd (watchOnlyLoginActions stub ''nobody'')) = 0
   \<and> snd (watchOnlyLoginActions stub ''addr-A'') =
       [Call_isAddress ''addr-A'', Call_dns_resolve ''google.com'' ''A'']
   \<and> invocations is_dns_resolve (snd (nep2LoginActions stub ''secret'' ''nep2-B'')) = 0
   \<and> invocations is_dns_resolve (snd (nep2LoginActions stub ''wrong'' ''nep2-A'')) = 0
   \<and> snd (nep2LoginActions stub ''secret'' ''nep2-A'') =
       [Call_validatePassphraseLength ''secret'', Call_isNEP2 ''nep2-A'',
        Call_decryptAsync ''nep2-A'' ''secret'', Call_new_Account ''wif-A'',
        Call_upgradeNEP6AddAddresses ''nep2-A'' ''wif-A'',
        Call_dns_resolve ''google.com'' ''A'']
   \<and> invocations is_dns_resolve (snd (ledgerLoginActions stub ''pub-C'' 0)) = 0
   \<and> snd (ledgerLoginActions stub ''pub-B'' 2) =
       [Call_getPublicKeyEncoded ''pub-B'', Call_new_Account ''pub-B-encoded'',
        Call_dns_resolve ''google.com'' ''A'']"
proof -
  have wif_ok: "fst (wifLoginActions stub ''key-A'') =
      Inr (Some \<lparr>address = ''addr-A'', wif = Some ''wif-A'', publicKey = None,
                 signingFunction = None, isHardwareLogin = False, isWatchOnly = None,
                 hasInternetConnectivity = True\<rparr>)"
    by (simp add: wif_stub_run)
  have watch_ok: "fst (watchOnlyLoginActions stub ''addr-A'') =
      Inr (Some \<lparr>address = ''addr-A'', wif = None, publicKey = None,
                 signingFunction = None, isHardwareLogin = False, isWatchOnly = Some True,
                 hasInternetConnectivity = True\<rparr>)"
    by (simp add: watch_stub_run)
  have nep2_ok: "fst (nep2LoginActions stub ''secret'' ''nep2-A'') =
      Inr (Some \<lparr>address = ''addr-A'', wif = Some ''wif-A'', publicKey = None,
                 signingFunction = None, isHardwareLogin = False, isWatchOnly = None,
                 hasInternetConnectivity = True\<rparr>)"
    by (simp add: nep2_stub_run)
  have ledger_ok: "fst (ledgerLoginActions stub ''pub-B'' 2) =
      Inr (Some \<lparr>address = ''addr-B'', wif = None, publicKey = Some ''pub-B'',
                 signingFunction = Some [3, 2], isHardwareLogin = True, isWatchOnly = None,
                 hasInternetConnectivity = True\<rparr>)"
    by (simp add: ledger_stub_run)
  show ?thesis
    using probe_follows_earlier_steps
            [where env = stub and w = "''garbage''" and a = "''nobody''"
               and p = "''secret''" and k = "''nep2-B''" and pk = "''pub-C''" and n = 0
               and e = "Error ''Invalid public key''"]
          probe_follows_earlier_steps
            [where env = stub and w = "''key-A''" and a = "''addr-A''"
               and p = "''secret''" and k = "''nep2-A''" and pk = "''pub-B''" and n = 2]
          probe_follows_earlier_steps
            [where env = stub and p = "''wrong''" and k = "''nep2-A''"
               and e = "Error ''Wrong password''"]
          wif_ok watch_ok nep2_ok ledger_ok
    by (simp add: stub_simps)
qed

end
